theory Spec2Isabelle
  imports Complex_Main "HOL-Library.Stream" "HOL-Library.Multiset"
begin

section \<open>Strings and the regular expressions of the scorers\<close>

text \<open>
  A JavaScript string is a sequence of UTF-16 code units. The model uses \<open>string\<close>; a
  \<open>char\<close> stands for a code unit below 256, \<open>length\<close> counts code units as
  \<open>String.prototype.length\<close> does. Every test in the source compares code units with
  ASCII ranges or ASCII literals; a code unit above ASCII is "not a letter, not a digit"
  for all of them.
\<close>

definition code :: "char \<Rightarrow> nat" where
  "code c = of_char c"

text \<open>The character classes \<open>[A-Z]\<close>, \<open>[a-z]\<close>, \<open>[0-9]\<close> and \<open>[^a-zA-Z0-9]\<close>.\<close>

definition isUpper :: "char \<Rightarrow> bool" where
  "isUpper c = (65 \<le> code c \<and> code c \<le> 90)"

definition isLower :: "char \<Rightarrow> bool" where
  "isLower c = (97 \<le> code c \<and> code c \<le> 122)"

definition isDigit :: "char \<Rightarrow> bool" where
  "isDigit c = (48 \<le> code c \<and> code c \<le> 57)"

definition isNonAlnum :: "char \<Rightarrow> bool" where
  "isNonAlnum c = (\<not> isLower c \<and> \<not> isUpper c \<and> \<not> isDigit c)"

definition UPPERCASE :: string where
  "UPPERCASE = ''ABCDEFGHIJKLMNOPQRSTUVWXYZ''"

definition LOWERCASE :: string where
  "LOWERCASE = ''abcdefghijklmnopqrstuvwxyz''"

definition NUMBERS :: string where
  "NUMBERS = ''0123456789''"

definition SYMBOLS :: string where
  "SYMBOLS = ''!@#$%^&*()_+-=[]{}|;:,.<>?''"

definition SIMILAR :: string where
  "SIMILAR = ''il1Lo0O''"

text \<open>\<open>String.prototype.includes\<close> with a one-character argument.\<close>

definition includesChar :: "string \<Rightarrow> char \<Rightarrow> bool" where
  "includesChar s c = List.member s c"

text \<open>
  The class \<open>[!@#$%^&*()_+\-=[\]{}|;:,.<>?]\<close> of the bonus test lists the same
  characters as \<open>SYMBOLS\<close>.
\<close>

definition isListedSymbol :: "char \<Rightarrow> bool" where
  "isListedSymbol c = includesChar ''!@#$%^&*()_+-=[]{}|;:,.<>?'' c"

text \<open>
  \<open>.\<close> of a regular expression without the \<open>s\<close> flag matches every code unit but the
  line terminators (LF and CR here; U+2028 and U+2029 are beyond the modelled range).
\<close>

definition isLineTerminator :: "char \<Rightarrow> bool" where
  "isLineTerminator c = (code c = 10 \<or> code c = 13)"

text \<open>
  The penalty test is the regular expression literal \<^verbatim>\<open>/(.)\\1{2,}/\<close>. In a literal,
  a doubled backslash is an escaped backslash, so the pattern reads: any character but a line
  terminator, then a backslash (code 92), then the digit \<open>1\<close> at least twice.
  \<open>repeatedRegex\<close> is \<open>test\<close> for that pattern: a match may start anywhere.
\<close>

fun repeatedRegex :: "string \<Rightarrow> bool" where
  "repeatedRegex (c # b # x # y # rest) =
     ((\<not> isLineTerminator c \<and> code b = 92 \<and> x = CHR ''1'' \<and> y = CHR ''1'')
      \<or> repeatedRegex (b # x # y # rest))"
| "repeatedRegex _ = False"

text \<open>
  What the comment beside the test names, "Repeated characters": some character occurs
  three or more times in a row.
\<close>

fun hasTripleRepeat :: "string \<Rightarrow> bool" where
  "hasTripleRepeat (a # b # c # rest) = ((a = b \<and> b = c) \<or> hasTripleRepeat (b # c # rest))"
| "hasTripleRepeat _ = False"

text \<open>
  \<open>/123|abc|qwe|password|admin/i\<close>: one of five literals occurs somewhere, letters
  compared without case. Without the \<open>u\<close> flag a non-ASCII code unit never
  matches an ASCII letter, so folding \<open>A-Z\<close> to \<open>a-z\<close> on the input is the comparison
  the engine makes.
\<close>

definition foldCase :: "char \<Rightarrow> char" where
  "foldCase c = (if isUpper c then char_of (code c + 32) else c)"

fun containsAt :: "string \<Rightarrow> string \<Rightarrow> bool" where
  "containsAt pat [] = (pat = [])"
| "containsAt pat (c # cs) = (take (length pat) (c # cs) = pat \<or> containsAt pat cs)"

definition commonPatternRegex :: "string \<Rightarrow> bool" where
  "commonPatternRegex password =
     (let s = map foldCase password
      in containsAt ''123'' s \<or> containsAt ''abc'' s \<or> containsAt ''qwe'' s
         \<or> containsAt ''password'' s \<or> containsAt ''admin'' s)"

section \<open>The qualitative scorer: \<open>PasswordGenerator.analyzeStrength\<close>\<close>

record PasswordStrength =
  score :: int
  label :: string
  color :: string
  suggestions :: "string list"

definition strengthLevels :: "(string \<times> string) list" where
  "strengthLevels =
     [(''Very Weak'', ''strength-very-weak''),
      (''Weak'', ''strength-weak''),
      (''Fair'', ''strength-fair''),
      (''Good'', ''strength-good''),
      (''Strong'', ''strength-strong'')]"

text \<open>
  \<open>strengthLevels[score]?.label || 'Very Weak'\<close>: an index outside the array reads
  \<open>undefined\<close>, and \<open>undefined\<close> as well as the empty string give way to the default.
\<close>

definition levelField :: "((string \<times> string) \<Rightarrow> string) \<Rightarrow> int \<Rightarrow> string \<Rightarrow> string" where
  "levelField field i dflt =
     (if 0 \<le> i \<and> nat i < length strengthLevels
      then (let v = field (strengthLevels ! nat i) in if v = [] then dflt else v)
      else dflt)"

text \<open>The score before \<open>Math.max(0, Math.min(5, score))\<close>, statement by statement.\<close>

definition rawQualitative :: "string \<Rightarrow> int" where
  "rawQualitative password =
     (if length password \<ge> 12 then 2 else if length password \<ge> 8 then 1 else 0)
     + (if list_ex isLower password then 1 else 0)
     + (if list_ex isUpper password then 1 else 0)
     + (if list_ex isDigit password then 1 else 0)
     + (if list_ex isNonAlnum password then 1 else 0)
     + (if length password \<ge> 16 then 1 else 0)
     + (if list_ex isListedSymbol password then 1 else 0)
     - (if repeatedRegex password then 1 else 0)
     - (if commonPatternRegex password then 2 else 0)"

definition qualitativeSuggestions :: "string \<Rightarrow> string list" where
  "qualitativeSuggestions password =
     (if length password \<ge> 12 then [] else if length password \<ge> 8 then []
      else [''Use at least 8 characters''])
     @ (if list_ex isLower password then [] else [''Include lowercase letters''])
     @ (if list_ex isUpper password then [] else [''Include uppercase letters''])
     @ (if list_ex isDigit password then [] else [''Include numbers''])
     @ (if list_ex isNonAlnum password then [] else [''Include special characters''])"

definition analyzeStrength :: "string \<Rightarrow> PasswordStrength" where
  "analyzeStrength password =
     (let score = max 0 (min 5 (rawQualitative password))
      in \<lparr> score = score,
           label = levelField fst score ''Very Weak'',
           color = levelField snd score ''strength-very-weak'',
           suggestions = qualitativeSuggestions password \<rparr>)"

section \<open>The quantitative scorer: \<open>calculatePasswordStrength\<close>\<close>

record StrengthBreakdown =
  score100 :: int
  hasUppercase :: bool
  hasLowercase :: bool
  hasNumbers :: bool
  hasSymbols :: bool

definition lengthPoints :: "string \<Rightarrow> int" where
  "lengthPoints password =
     (if length password \<ge> 16 then 30
      else if length password \<ge> 12 then 25
      else if length password \<ge> 8 then 15
      else if length password \<ge> 6 then 10
      else 5)"

definition calculatePasswordStrength :: "string \<Rightarrow> StrengthBreakdown" where
  "calculatePasswordStrength password =
     (let hasUppercase = list_ex isUpper password;
          hasLowercase = list_ex isLower password;
          hasNumbers = list_ex isDigit password;
          hasSymbols = list_ex isNonAlnum password;
          score = lengthPoints password;
          score = score + (if hasUppercase then 15 else 0);
          score = score + (if hasLowercase then 15 else 0);
          score = score + (if hasNumbers then 15 else 0);
          score = score + (if hasSymbols then 25 else 0);
          varietyCount = length (filter id [hasUppercase, hasLowercase, hasNumbers, hasSymbols]);
          score = score + (if varietyCount \<ge> 3 then 10 else 0);
          score = score + (if varietyCount = 4 then 10 else 0);
          score = score - (if repeatedRegex password then 10 else 0);
          score = score - (if commonPatternRegex password then 20 else 0);
          score = max 0 (min 100 score)
      in \<lparr> score100 = score,
           hasUppercase = hasUppercase,
           hasLowercase = hasLowercase,
           hasNumbers = hasNumbers,
           hasSymbols = hasSymbols \<rparr>)"

section \<open>The generator: \<open>PasswordGenerator.generate\<close>\<close>

text \<open>
  \<open>GeneratorOptions\<close> as declared; the field \<open>length\<close> is \<open>length_opt\<close> here, an
  integer (the interface says \<open>number\<close>, every caller passes a whole number).
\<close>

record GeneratorOptions =
  length_opt :: int
  includeUppercase :: bool
  includeLowercase :: bool
  includeNumbers :: bool
  includeSymbols :: bool
  excludeSimilar :: bool

datatype error = Error string | TypeError string

text \<open>\<open>String.prototype.charAt\<close>: the empty string for an index out of range.\<close>

definition charAt :: "string \<Rightarrow> int \<Rightarrow> string" where
  "charAt s i = (if 0 \<le> i \<and> i < int (length s) then [s ! nat i] else [])"

text \<open>
  \<open>Math.floor(Math.random() * n)\<close>, with the value \<open>r\<close> of \<open>Math.random()\<close> taken as
  a real number. The successive values of \<open>Math.random()\<close> are a stream, threaded through
  the calls in the order the source makes them.
\<close>

definition randomIndex :: "real \<Rightarrow> nat \<Rightarrow> int" where
  "randomIndex r n = \<lfloor>r * real n\<rfloor>"

definition getRandomChar :: "string \<Rightarrow> bool \<Rightarrow> real stream \<Rightarrow> string \<times> real stream" where
  "getRandomChar charset excludeSim rnd =
     (let chars = charset;
          chars = (if excludeSim then filter (\<lambda>char. \<not> includesChar SIMILAR char) charset else chars)
      in (charAt chars (randomIndex (shd rnd) (length chars)), stl rnd))"

text \<open>
  The filling loop \<open>for (let i = password.length; i < options.length; i++)\<close>: the
  counter is compared with \<open>options.length\<close>, not with the password's current length.
\<close>

function fillRest :: "string \<Rightarrow> int \<Rightarrow> int \<Rightarrow> string \<times> real stream \<Rightarrow> string \<times> real stream" where
  "fillRest charset n i (password, rnd) =
     (if i < n
      then fillRest charset n (i + 1)
             (password @ charAt charset (randomIndex (shd rnd) (length charset)), stl rnd)
      else (password, rnd))"
  by pat_completeness auto
termination
  by (relation "measure (\<lambda>(charset, n, i, st). nat (n - i))") auto

declare fillRest.simps [simp del]

text \<open>
  The last line sorts the characters with the comparator \<open>() => Math.random() - 0.5\<close>.
  Which order comes out is the engine's choice; the sort returns the elements it was
  given. It is the parameter \<open>shuffle\<close>, a rearrangement of its argument in the theorems
  below.
\<close>

definition generate :: "(string \<Rightarrow> string) \<Rightarrow> GeneratorOptions \<Rightarrow> real stream \<Rightarrow> error + string" where
  "generate shuffle options rnd =
     (let charset = [];
          charset = (if includeUppercase options then charset @ UPPERCASE else charset);
          charset = (if includeLowercase options then charset @ LOWERCASE else charset);
          charset = (if includeNumbers options then charset @ NUMBERS else charset);
          charset = (if includeSymbols options then charset @ SYMBOLS else charset);
          charset = (if excludeSimilar options
                     then filter (\<lambda>char. \<not> includesChar SIMILAR char) charset else charset)
      in if length charset = 0
         then Inl (Error ''At least one character type must be selected'')
         else
           (let st = ([], rnd);
                st = (if includeUppercase options
                      then (let (ch, rnd') = getRandomChar UPPERCASE (excludeSimilar options) (snd st)
                            in (fst st @ ch, rnd'))
                      else st);
                st = (if includeLowercase options
                      then (let (ch, rnd') = getRandomChar LOWERCASE (excludeSimilar options) (snd st)
                            in (fst st @ ch, rnd'))
                      else st);
                st = (if includeNumbers options
                      then (let (ch, rnd') = getRandomChar NUMBERS (excludeSimilar options) (snd st)
                            in (fst st @ ch, rnd'))
                      else st);
                st = (if includeSymbols options
                      then (let (ch, rnd') = getRandomChar SYMBOLS (excludeSimilar options) (snd st)
                            in (fst st @ ch, rnd'))
                      else st);
                st = fillRest charset (length_opt options) (int (length (fst st))) st
            in Inr (shuffle (fst st))))"

text \<open>The number of enabled character classes.\<close>

definition enabledClasses :: "GeneratorOptions \<Rightarrow> nat" where
  "enabledClasses options =
     length (filter id [includeUppercase options, includeLowercase options,
                        includeNumbers options, includeSymbols options])"

section \<open>The health analyzer: \<open>PasswordHealth\<close>\<close>

text \<open>
  A stored record: the interface \<open>Password\<close> together with the field \<open>password\<close> that
  the import writes and the analyzer reads first. Field names that the import candidate
  below also has carry the suffix \<open>_p\<close>. An optional string is an \<open>option\<close>; the
  undeclared \<open>password\<close> is a string, empty when absent: the only use is
  \<open>password.password || password.encryptedPassword\<close>, where absent and empty act alike.
\<close>

record Password =
  id_p :: string
  userId :: string
  title_p :: string
  username_p :: "string option"
  email_p :: "string option"
  password_p :: string
  encryptedPassword :: string
  websiteUrl_p :: "string option"
  category_p :: string
  notes_p :: "string option"
  isFavorite :: bool
  createdAt :: string
  updatedAt :: string
  lastUsed :: "string option"

record HealthStats =
  total_h :: nat
  weak :: nat
  duplicate :: nat
  old :: nat
  strong :: nat
  healthScore :: real

definition passwordValue :: "Password \<Rightarrow> string" where
  "passwordValue p = (if password_p p \<noteq> [] then password_p p else encryptedPassword p)"

text \<open>
  The body of \<open>passwordList.forEach\<close> on the pair of \<open>stats\<close> and \<open>passwordValues\<close>.
  The platform's date handling comes in as two parameters: \<open>dateValue\<close> is the time value
  of \<open>new Date(s)\<close> (\<open>None\<close> for an invalid date, which compares false), and
  \<open>sixMonthsAgo\<close> is the time value of the current date after
  \<open>setMonth(getMonth() - 6)\<close>.
\<close>

definition analyzeStep ::
  "(string \<Rightarrow> int option) \<Rightarrow> int \<Rightarrow> HealthStats \<times> string list \<Rightarrow> Password
   \<Rightarrow> HealthStats \<times> string list" where
  "analyzeStep dateValue sixMonthsAgo st password =
     (let stats = fst st; passwordValues = snd st;
          strength = calculatePasswordStrength (passwordValue password);
          stats = (if score100 strength < 60 then stats\<lparr>weak := weak stats + 1\<rparr>
                   else if score100 strength \<ge> 80 then stats\<lparr>strong := strong stats + 1\<rparr>
                   else stats);
          pv = passwordValue password;
          stats' = (if List.member passwordValues pv
                    then stats\<lparr>duplicate := duplicate stats + 1\<rparr> else stats);
          passwordValues = (if List.member passwordValues pv
                            then passwordValues else passwordValues @ [pv]);
          stats = (case dateValue (updatedAt password) of
                     Some updatedDate \<Rightarrow>
                       if updatedDate < sixMonthsAgo then stats'\<lparr>old := old stats' + 1\<rparr>
                       else stats'
                   | None \<Rightarrow> stats')
      in (stats, passwordValues))"

definition analyzePasswordHealth ::
  "(string \<Rightarrow> int option) \<Rightarrow> int \<Rightarrow> Password list \<Rightarrow> HealthStats" where
  "analyzePasswordHealth dateValue sixMonthsAgo passwordList =
     (let stats = \<lparr> total_h = length passwordList, weak = 0, duplicate = 0, old = 0,
                    strong = 0, healthScore = 0 \<rparr>;
          stats = fst (foldl (analyzeStep dateValue sixMonthsAgo) (stats, []) passwordList)
      in if total_h stats > 0
         then (let weakPenalty = (real (weak stats) / real (total_h stats)) * 40;
                   duplicatePenalty = (real (duplicate stats) / real (total_h stats)) * 30;
                   oldPenalty = (real (old stats) / real (total_h stats)) * 20;
                   strongBonus = (real (strong stats) / real (total_h stats)) * 10
               in stats\<lparr>healthScore :=
                    max 0 (min 100 (100 - weakPenalty - duplicatePenalty - oldPenalty + strongBonus))\<rparr>)
         else stats)"

text \<open>
  The composite score in the words of the specification: the clamp to \<open>[0, 100]\<close> of
  \<open>100 - 40 weakRatio - 30 duplicateRatio - 20 staleRatio + 10 strongRatio\<close>, every ratio
  a count over the total, and 0 when the total is 0.
\<close>

definition clamp :: "real \<Rightarrow> real \<Rightarrow> real \<Rightarrow> real" where
  "clamp lo hi x = (if x < lo then lo else if hi < x then hi else x)"

definition compositeScoreSpec :: "nat \<Rightarrow> nat \<Rightarrow> nat \<Rightarrow> nat \<Rightarrow> nat \<Rightarrow> real" where
  "compositeScoreSpec n weakCount duplicateCount staleCount strongCount =
     (if n = 0 then 0
      else clamp 0 100
             (100 - 40 * (real weakCount / real n) - 30 * (real duplicateCount / real n)
                  - 20 * (real staleCount / real n) + 10 * (real strongCount / real n)))"

subsection \<open>\<open>getDuplicatePasswords\<close>\<close>

text \<open>
  \<open>passwordGroups\<close> is an object used as a dictionary: an association list in the order
  the keys were created. Two things of a JavaScript object show through.
  A name that \<open>Object.prototype\<close> defines is found by \<open>passwordGroups[passwordValue]\<close>
  on the empty object, the value found is truthy, no array is stored, and the call of
  \<open>push\<close> on it throws a \<open>TypeError\<close>.
  \<open>Object.values\<close> lists the keys that are array indices first, in ascending numeric
  order, and the other keys after them in creation order.
\<close>

definition objectPrototypeKeys :: "string list" where
  "objectPrototypeKeys =
     [''constructor'', ''__defineGetter__'', ''__defineSetter__'', ''hasOwnProperty'',
      ''__lookupGetter__'', ''__lookupSetter__'', ''isPrototypeOf'', ''propertyIsEnumerable'',
      ''toString'', ''valueOf'', ''__proto__'', ''toLocaleString'']"

definition decimalValue :: "string \<Rightarrow> int" where
  "decimalValue k = foldl (\<lambda>n c. 10 * n + (int (code c) - 48)) 0 k"

definition isArrayIndex :: "string \<Rightarrow> bool" where
  "isArrayIndex k =
     (k \<noteq> [] \<and> list_all isDigit k \<and> (length k = 1 \<or> hd k \<noteq> CHR ''0'')
      \<and> decimalValue k \<le> 4294967294)"

definition objectValues :: "(string \<times> 'a) list \<Rightarrow> 'a list" where
  "objectValues props =
     map snd (sort_key (\<lambda>kv. decimalValue (fst kv)) (filter (\<lambda>kv. isArrayIndex (fst kv)) props)
              @ filter (\<lambda>kv. \<not> isArrayIndex (fst kv)) props)"

fun groupPasswords ::
  "Password list \<Rightarrow> (string \<times> Password list) list \<Rightarrow> error + (string \<times> Password list) list" where
  "groupPasswords [] passwordGroups = Inr passwordGroups"
| "groupPasswords (password # rest) passwordGroups =
     (let pv = passwordValue password
      in case map_of passwordGroups pv of
           Some grp \<Rightarrow>
             groupPasswords rest
               (map (\<lambda>kv. if fst kv = pv then (pv, grp @ [password]) else kv) passwordGroups)
         | None \<Rightarrow>
             if List.member objectPrototypeKeys pv
             then Inl (TypeError ''passwordGroups[passwordValue].push is not a function'')
             else groupPasswords rest (passwordGroups @ [(pv, [password])]))"

definition getDuplicatePasswords :: "Password list \<Rightarrow> error + Password list" where
  "getDuplicatePasswords passwords =
     (case groupPasswords passwords [] of
        Inl e \<Rightarrow> Inl e
      | Inr passwordGroups \<Rightarrow>
          Inr (concat (filter (\<lambda>grp. length grp > 1) (objectValues passwordGroups))))"

section \<open>The import: \<open>parseCSV\<close>\<close>

record ImportedPassword =
  title :: string
  username :: "string option"
  email :: "string option"
  password :: string
  websiteUrl :: "string option"
  category :: string
  "notes" :: "string option"

text \<open>
  \<open>String.prototype.split\<close> with a one-character separator: the pieces between the
  separators, one piece (the empty one) for the empty string.
\<close>

fun split :: "char \<Rightarrow> string \<Rightarrow> string list" where
  "split sep [] = [[]]"
| "split sep (c # cs) =
     (if c = sep then [] # split sep cs
      else (case split sep cs of
              [] \<Rightarrow> [[c]]
            | piece # pieces \<Rightarrow> (c # piece) # pieces))"

text \<open>
  \<open>trim\<close> removes white space and line terminators at both ends: TAB, LF, VT, FF, CR,
  space and the no-break space, among the code units modelled.
\<close>

definition isWhiteSpace :: "char \<Rightarrow> bool" where
  "isWhiteSpace c = ((9 \<le> code c \<and> code c \<le> 13) \<or> code c = 32 \<or> code c = 160)"

definition trim :: "string \<Rightarrow> string" where
  "trim s = rev (dropWhile isWhiteSpace (rev (dropWhile isWhiteSpace s)))"

text \<open>
  \<open>toLowerCase\<close> on the modelled code units: \<open>A-Z\<close> and the capital letters of
  Latin-1 (192 to 222 but the multiplication sign 215) move up by 32.
\<close>

definition toLowerCase :: "string \<Rightarrow> string" where
  "toLowerCase s =
     map (\<lambda>c. if isUpper c \<or> (192 \<le> code c \<and> code c \<le> 222 \<and> code c \<noteq> 215)
              then char_of (code c + 32) else c) s"

text \<open>
  \<open>v.replace(/^"(.*)"$/, '$1')\<close>: a value that starts and ends with a double quote
  (code 34), two quotes at least, with no line terminator between them, loses the two
  quotes; any other value stays.
\<close>

definition unquote :: "string \<Rightarrow> string" where
  "unquote v =
     (if length v \<ge> 2 \<and> code (hd v) = 34 \<and> code (last v) = 34
         \<and> \<not> list_ex isLineTerminator (butlast (tl v))
      then butlast (tl v) else v)"

text \<open>Decimal digits of a natural number, for the template literals.\<close>

function showNat :: "nat \<Rightarrow> string" where
  "showNat n =
     (if n < 10 then [char_of (48 + n)]
      else showNat (n div 10) @ [char_of (48 + n mod 10)])"
  by pat_completeness auto
termination
  by (relation "measure id") auto

declare showNat.simps [simp del]

text \<open>
  The \<open>switch\<close> inside \<open>headers.forEach\<close>, for one header and the value of its column
  (\<open>values[index] || ''\<close>).
\<close>

definition assignField :: "string list \<Rightarrow> ImportedPassword \<Rightarrow> string \<times> nat \<Rightarrow> ImportedPassword" where
  "assignField vals pw hi =
     (let header = fst hi; index = snd hi;
          v = (if index < length vals then vals ! index else [])
      in if header = ''title'' \<or> header = ''name'' \<or> header = ''site'' then pw\<lparr>title := v\<rparr>
         else if header = ''username'' \<or> header = ''user'' then pw\<lparr>username := Some v\<rparr>
         else if header = ''email'' then pw\<lparr>email := Some v\<rparr>
         else if header = ''password'' then pw\<lparr>password := v\<rparr>
         else if header = ''url'' \<or> header = ''website'' \<or> header = ''websiteurl''
           then pw\<lparr>websiteUrl := Some v\<rparr>
         else if header = ''category'' \<or> header = ''folder''
           then pw\<lparr>category := (if v = [] then ''Personal'' else v)\<rparr>
         else if header = ''notes'' \<or> header = ''note'' then pw\<lparr>notes := Some v\<rparr>
         else pw)"

text \<open>
  One data line up to the end of \<open>headers.forEach\<close>: the values are split, trimmed and
  unquoted, the record starts with empty title and password and category "Personal".
\<close>

definition resolveRow :: "string list \<Rightarrow> string \<Rightarrow> ImportedPassword" where
  "resolveRow headers line =
     (let vals = map (\<lambda>v. unquote (trim v)) (split CHR '','' line);
          pw = \<lparr> title = [], username = None, email = None, password = [],
                 websiteUrl = None, category = ''Personal'', notes = None \<rparr>
      in foldl (assignField vals) pw (zip headers [0 ..< length headers]))"

text \<open>The title fallback that follows, for line number \<open>i\<close>.\<close>

definition withTitle :: "nat \<Rightarrow> ImportedPassword \<Rightarrow> ImportedPassword" where
  "withTitle i pw =
     (if title pw = []
      then pw\<lparr>title := (case websiteUrl pw of
                           Some u \<Rightarrow> if u \<noteq> [] then u else ''Imported Password '' @ showNat i
                         | None \<Rightarrow> ''Imported Password '' @ showNat i)\<rparr>
      else pw)"

text \<open>
  The loop \<open>for (let i = 1; i < lines.length; i++)\<close> over the lines after the header:
  \<open>i\<close> is the index of the first line left, \<open>passwords\<close> the array built so far.
\<close>

fun rowsLoop :: "string list \<Rightarrow> nat \<Rightarrow> string list \<Rightarrow> ImportedPassword list \<Rightarrow> ImportedPassword list" where
  "rowsLoop headers i [] passwords = passwords"
| "rowsLoop headers i (line # rest) passwords =
     (let pw = withTitle i (resolveRow headers line)
      in rowsLoop headers (i + 1) rest
           (if password pw \<noteq> [] then passwords @ [pw] else passwords))"

definition csvLines :: "string \<Rightarrow> string list" where
  "csvLines text = filter (\<lambda>line. trim line \<noteq> []) (split (char_of (10::nat)) text)"

definition csvHeaders :: "string list \<Rightarrow> string list" where
  "csvHeaders lines = map (\<lambda>h. toLowerCase (trim h)) (split CHR '','' (hd lines))"

definition parseCSV :: "string \<Rightarrow> error + ImportedPassword list" where
  "parseCSV text =
     (let lines = csvLines text
      in if length lines < 2
         then Inl (Error ''CSV must have at least a header row and one data row'')
         else Inr (rowsLoop (csvHeaders lines) 1 (tl lines) []))"

section \<open>The import: \<open>handleImport\<close>\<close>

record ImportResult =
  total_r :: nat
  successful :: nat
  failed :: nat
  errors :: "string list"

text \<open>
  What \<open>handleImport\<close> takes from outside. \<open>auth_me\<close> is the outcome of
  \<open>blink.auth.me()\<close>, the user's id or the error it rejects with. \<open>db_create i r\<close> is the
  outcome of the call of \<open>blink.db.passwords.create\<close> in iteration \<open>i\<close> with record
  \<open>r\<close>: \<open>None\<close> when it resolves, \<open>Some e\<close> when it rejects, \<open>e\<close> the text of the
  error inside a template literal. \<open>newId i\<close> is the id built from \<open>Date.now()\<close> and
  \<open>Math.random()\<close> in iteration \<open>i\<close>; \<open>isoNow\<close> gives the two successive values of
  \<open>new Date().toISOString()\<close> there.
\<close>

record Blink =
  auth_me :: "error + string"
  db_create :: "nat \<Rightarrow> Password \<Rightarrow> string option"
  newId :: "nat \<Rightarrow> string"
  isoNow :: "nat \<Rightarrow> string \<times> string"

text \<open>\<open>x || ''\<close> for an optional string.\<close>

definition orEmpty :: "string option \<Rightarrow> string" where
  "orEmpty x = (case x of Some s \<Rightarrow> s | None \<Rightarrow> [])"

text \<open>The object literal handed to \<open>create\<close>.\<close>

definition newRecord :: "Blink \<Rightarrow> string \<Rightarrow> nat \<Rightarrow> ImportedPassword \<Rightarrow> Password" where
  "newRecord blink user i pw =
     \<lparr> id_p = newId blink i,
       userId = user,
       title_p = title pw,
       username_p = Some (orEmpty (username pw)),
       email_p = Some (orEmpty (email pw)),
       password_p = password pw,
       encryptedPassword = password pw,
       websiteUrl_p = Some (orEmpty (websiteUrl pw)),
       category_p = category pw,
       notes_p = Some (orEmpty (notes pw)),
       isFavorite = False,
       createdAt = fst (isoNow blink i),
       updatedAt = snd (isoNow blink i),
       lastUsed = None \<rparr>"

text \<open>
  The loop over \<open>previewData\<close> with its inner \<open>try\<close>/\<open>catch\<close>: a rejected \<open>create\<close>
  is caught inside the iteration, counted, described, and the loop goes on.
\<close>

fun importLoop :: "Blink \<Rightarrow> string \<Rightarrow> nat \<Rightarrow> ImportedPassword list \<Rightarrow> ImportResult \<Rightarrow> ImportResult" where
  "importLoop blink user i [] result = result"
| "importLoop blink user i (pw # rest) result =
     importLoop blink user (i + 1) rest
       (case db_create blink i (newRecord blink user i pw) of
          None \<Rightarrow> result\<lparr>successful := successful result + 1\<rparr>
        | Some err \<Rightarrow>
            result\<lparr>failed := failed result + 1,
                   errors := errors result
                     @ [''Failed to import '' @ [char_of (34::nat)] @ title pw
                        @ [char_of (34::nat)] @ '': '' @ err]\<rparr>)"

text \<open>
  \<open>handleImport\<close> gives the result it stores with \<open>setImportResult\<close>: none when
  \<open>previewData\<close> is empty (the early return) and none when \<open>blink.auth.me()\<close> rejects
  (the outer \<open>catch\<close>).
\<close>

definition handleImport :: "Blink \<Rightarrow> ImportedPassword list \<Rightarrow> ImportResult option" where
  "handleImport blink previewData =
     (if length previewData = 0 then None
      else case auth_me blink of
             Inl e \<Rightarrow> None
           | Inr user \<Rightarrow>
               Some (importLoop blink user 0 previewData
                       \<lparr> total_r = length previewData, successful = 0, failed = 0, errors = [] \<rparr>))"

section \<open>Auxiliary definitions for the statements\<close>

subsection \<open>The generator, step by step\<close>

text \<open>
  \<open>generate\<close> is four guarded calls of \<open>getRandomChar\<close> followed by the filling loop.
  The definitions below name these parts; \<open>generate_alt\<close> proves that they compose to
  \<open>generate\<close>.
\<close>

definition notSimilar :: "string \<Rightarrow> string" where
  "notSimilar cs = filter (\<lambda>char. \<not> includesChar SIMILAR char) cs"

definition pickFrom :: "bool \<Rightarrow> string \<Rightarrow> string" where
  "pickFrom ex pool = (if ex then notSimilar pool else pool)"

definition wholeCharset :: "GeneratorOptions \<Rightarrow> string" where
  "wholeCharset options =
     pickFrom (excludeSimilar options)
       ((if includeUppercase options then UPPERCASE else [])
        @ (if includeLowercase options then LOWERCASE else [])
        @ (if includeNumbers options then NUMBERS else [])
        @ (if includeSymbols options then SYMBOLS else []))"

definition addClassChar :: "bool \<Rightarrow> string \<Rightarrow> bool \<Rightarrow> string \<times> real stream \<Rightarrow> string \<times> real stream" where
  "addClassChar enabled pool ex st =
     (if enabled
      then (fst st @ fst (getRandomChar pool ex (snd st)), snd (getRandomChar pool ex (snd st)))
      else st)"

definition guaranteed :: "GeneratorOptions \<Rightarrow> real stream \<Rightarrow> string \<times> real stream" where
  "guaranteed options rnd =
     addClassChar (includeSymbols options) SYMBOLS (excludeSimilar options)
       (addClassChar (includeNumbers options) NUMBERS (excludeSimilar options)
         (addClassChar (includeLowercase options) LOWERCASE (excludeSimilar options)
           (addClassChar (includeUppercase options) UPPERCASE (excludeSimilar options) ([], rnd))))"

subsection \<open>The counts of the health report, record by record\<close>

text \<open>
  The counts the specification names, each as a property of the records alone: a record
  is weak when its secret scores below 60, strong when it scores 80 or more, stale when
  its date is before the threshold, and it repeats an earlier one when its secret value
  appeared before it, so the repeats are the records beyond the distinct secret values.
\<close>

definition isWeak :: "Password \<Rightarrow> bool" where
  "isWeak p = (score100 (calculatePasswordStrength (passwordValue p)) < 60)"

definition isStrong :: "Password \<Rightarrow> bool" where
  "isStrong p = (score100 (calculatePasswordStrength (passwordValue p)) \<ge> 80)"

definition isStale :: "(string \<Rightarrow> int option) \<Rightarrow> int \<Rightarrow> Password \<Rightarrow> bool" where
  "isStale dateValue sixMonthsAgo p =
     (case dateValue (updatedAt p) of Some t \<Rightarrow> t < sixMonthsAgo | None \<Rightarrow> False)"

definition repeatsEarlier :: "Password list \<Rightarrow> nat" where
  "repeatsEarlier ps = length ps - length (remdups (map passwordValue ps))"

subsection \<open>The outcomes of the store during a commit\<close>

text \<open>
  The outcome of \<open>create\<close> for each candidate in turn, numbered from \<open>i\<close>: which
  candidates the store accepts and which it rejects.
\<close>

definition createOutcomes :: "Blink \<Rightarrow> string \<Rightarrow> nat \<Rightarrow> ImportedPassword list \<Rightarrow> string option list" where
  "createOutcomes blink user i candidates =
     map (\<lambda>(j, pw). db_create blink j (newRecord blink user j pw))
       (List.enumerate i candidates)"

subsection \<open>Sample inputs\<close>

text \<open>A stored record with a given id and secret, last updated on 15 January 2024.\<close>

definition sampleRecord :: "string \<Rightarrow> string \<Rightarrow> Password" where
  "sampleRecord i secret =
     \<lparr> id_p = i, userId = ''user_1'', title_p = ''Account '' @ i, username_p = Some ''john'',
       email_p = None, password_p = secret, encryptedPassword = secret,
       websiteUrl_p = None, category_p = ''Personal'', notes_p = None, isFavorite = False,
       createdAt = ''2024-01-15T00:00:00.000Z'', updatedAt = ''2024-01-15T00:00:00.000Z'',
       lastUsed = None \<rparr>"

text \<open>The time value of that date, and no value for any other string.\<close>

definition sampleDateValue :: "string \<Rightarrow> int option" where
  "sampleDateValue s = (if s = ''2024-01-15T00:00:00.000Z'' then Some 1705276800000 else None)"

text \<open>
  A CSV file with the header of the specification and two data rows, the first with an
  empty password field.
\<close>

definition sampleCSV :: string where
  "sampleCSV = ''title,username,password,url,notes'' @ [char_of (10::nat)]
     @ ''Gmail,john@example.com,,https://gmail.com,Work email'' @ [char_of (10::nat)]
     @ ''Facebook,john@example.com,anotherpassword,https://facebook.com,Social media''"

definition sampleCandidate :: "string \<Rightarrow> string \<Rightarrow> ImportedPassword" where
  "sampleCandidate t secret =
     \<lparr> title = t, username = Some ''john'', email = None, password = secret,
       websiteUrl = None, category = ''Personal'', notes = None \<rparr>"

text \<open>A signed-in user and a store that rejects the second call of \<open>create\<close> only.\<close>

definition sampleBlink :: Blink where
  "sampleBlink =
     \<lparr> auth_me = Inr ''user_1'',
       db_create = (\<lambda>i r. if i = 1 then Some ''Error: store unavailable'' else None),
       newId = (\<lambda>i. ''pwd_'' @ showNat i),
       isoNow = (\<lambda>i. (''2024-01-15T00:00:00.000Z'', ''2024-01-15T00:00:00.000Z'')) \<rparr>"

section \<open>The scorers\<close>

lemma lengthPoints_mono: "length s \<le> length t \<Longrightarrow> lengthPoints s \<le> lengthPoints t"
  by (simp add: lengthPoints_def)

lemma flags_simps:
  "hasUppercase (calculatePasswordStrength s) = list_ex isUpper s"
  "hasLowercase (calculatePasswordStrength s) = list_ex isLower s"
  "hasNumbers (calculatePasswordStrength s) = list_ex isDigit s"
  "hasSymbols (calculatePasswordStrength s) = list_ex isNonAlnum s"
  by (simp_all only: calculatePasswordStrength_def Let_def StrengthBreakdown.select_convs)

lemma score100_unfold:
  "score100 (calculatePasswordStrength s) =
     max 0 (min 100 (lengthPoints s
       + (if list_ex isUpper s then 15 else 0)
       + (if list_ex isLower s then 15 else 0)
       + (if list_ex isDigit s then 15 else 0)
       + (if list_ex isNonAlnum s then 25 else 0)
       + (if length (filter id [list_ex isUpper s, list_ex isLower s, list_ex isDigit s, list_ex isNonAlnum s]) \<ge> 3 then 10 else 0)
       + (if length (filter id [list_ex isUpper s, list_ex isLower s, list_ex isDigit s, list_ex isNonAlnum s]) = 4 then 10 else 0)
       - (if repeatedRegex s then 10 else 0)
       - (if commonPatternRegex s then 20 else 0)))"
  by (simp only: calculatePasswordStrength_def Let_def StrengthBreakdown.select_convs)

lemma clamp_sum_mono:
  fixes a :: int
  assumes "a \<le> a'" and "p' \<le> p" and "q' \<le> q"
  shows "max 0 (min 100 (a + c1 + c2 + c3 + c4 + c5 + c6 - p - q))
       \<le> max 0 (min 100 (a' + c1 + c2 + c3 + c4 + c5 + c6 - p' - q'))"
  using assms by linarith

text \<open>
  C4. The claim: a string in which some character occurs three or more times in a row
  loses 1 on the qualitative scale and 10 on the quantitative scale. The code's test is
  another pattern (a character, a backslash, two digits 1), so on \<open>aaa\<close> no penalty is
  taken: the quantitative score is 5 + 15 = 20 where the claim gives 10, the qualitative
  score is 1 where the claim gives 0.
\<close>

theorem repeated_penalty_not_applied:
  "hasTripleRepeat ''aaa'' \<and> \<not> repeatedRegex ''aaa''
   \<and> score100 (calculatePasswordStrength ''aaa'') = 20
   \<and> rawQualitative ''aaa'' = 1
   \<and> score (analyzeStrength ''aaa'') = 1"
  by code_simp

text \<open>
  C5, as stated: of two strings with the same class-presence flags the longer one scores
  at least as much on the quantitative scale. It fails: \<open>zzzzzz\<close> and \<open>password\<close> are
  both lowercase only, the longer one contains a forbidden substring and scores 10, the
  shorter one scores 25.
\<close>

theorem score100_mono_counterexample:
  "hasUppercase (calculatePasswordStrength ''zzzzzz'') = hasUppercase (calculatePasswordStrength ''password'')
   \<and> hasLowercase (calculatePasswordStrength ''zzzzzz'') = hasLowercase (calculatePasswordStrength ''password'')
   \<and> hasNumbers (calculatePasswordStrength ''zzzzzz'') = hasNumbers (calculatePasswordStrength ''password'')
   \<and> hasSymbols (calculatePasswordStrength ''zzzzzz'') = hasSymbols (calculatePasswordStrength ''password'')
   \<and> length ''zzzzzz'' < length ''password''
   \<and> score100 (calculatePasswordStrength ''password'') = 10
   \<and> score100 (calculatePasswordStrength ''zzzzzz'') = 25
   \<and> score100 (calculatePasswordStrength ''password'') < score100 (calculatePasswordStrength ''zzzzzz'')"
  by code_simp

text \<open>
  C5, amended: of two strings with the same class-presence flags, where the longer string
  incurs no penalty that the shorter one does not, the longer string scores at least as
  much on the quantitative scale. The forbidden-substring test, if it holds of the longer
  string, holds of the shorter one; and so does the repeated-character test, both as the
  specification states it (\<open>hasTripleRepeat\<close>: some character three or more times in a
  row) and as the code applies it (\<open>repeatedRegex\<close>). Pairs on which the two readings of
  the repeated-character test would order the scores differently are outside the
  statement: \<open>aab\<close> and \<open>aaab\<close>, where only the first reading takes a penalty from the
  longer string, and a pair where only the second does.
\<close>

theorem score100_mono_in_length:
  assumes "hasUppercase (calculatePasswordStrength s) = hasUppercase (calculatePasswordStrength t)"
    and "hasLowercase (calculatePasswordStrength s) = hasLowercase (calculatePasswordStrength t)"
    and "hasNumbers (calculatePasswordStrength s) = hasNumbers (calculatePasswordStrength t)"
    and "hasSymbols (calculatePasswordStrength s) = hasSymbols (calculatePasswordStrength t)"
    and "commonPatternRegex t \<longrightarrow> commonPatternRegex s"
    and "hasTripleRepeat t \<longrightarrow> hasTripleRepeat s"
    and "repeatedRegex t \<longrightarrow> repeatedRegex s"
    and "length s \<le> length t"
  shows "score100 (calculatePasswordStrength s) \<le> score100 (calculatePasswordStrength t)"
proof -
  have f: "list_ex isUpper s = list_ex isUpper t" "list_ex isLower s = list_ex isLower t"
    "list_ex isDigit s = list_ex isDigit t" "list_ex isNonAlnum s = list_ex isNonAlnum t"
    using assms(1-4) by (simp_all only: flags_simps)
  have p1: "(if repeatedRegex t then (10::int) else 0) \<le> (if repeatedRegex s then 10 else 0)"
    using assms(7) by simp
  have p2: "(if commonPatternRegex t then (20::int) else 0) \<le> (if commonPatternRegex s then 20 else 0)"
    using assms(5) by simp
  have l: "lengthPoints s \<le> lengthPoints t" using assms(8) by (rule lengthPoints_mono)
  show ?thesis
    unfolding score100_unfold f by (rule clamp_sum_mono [OF l p1 p2])
qed

theorem score100_mono_in_length_witness:
  "hasTripleRepeat ''aaaaaaaaaaaaaaaa'' \<and> hasTripleRepeat ''aaaaaa''
   \<and> \<not> repeatedRegex ''aaaaaaaaaaaaaaaa'' \<and> \<not> commonPatternRegex ''aaaaaaaaaaaaaaaa''
   \<and> length ''aaaaaa'' \<le> length ''aaaaaaaaaaaaaaaa''
   \<and> score100 (calculatePasswordStrength ''aaaaaa'')
       \<le> score100 (calculatePasswordStrength ''aaaaaaaaaaaaaaaa'')
   \<and> score100 (calculatePasswordStrength ''aaaaaa'') = 25
   \<and> score100 (calculatePasswordStrength ''aaaaaaaaaaaaaaaa'') = 45"
proof -
  have h: "hasTripleRepeat ''aaaaaaaaaaaaaaaa''" "hasTripleRepeat ''aaaaaa''"
    "\<not> repeatedRegex ''aaaaaaaaaaaaaaaa''" "\<not> commonPatternRegex ''aaaaaaaaaaaaaaaa''"
    "length ''aaaaaa'' \<le> length ''aaaaaaaaaaaaaaaa''"
    by code_simp+
  have "score100 (calculatePasswordStrength ''aaaaaa'')
          \<le> score100 (calculatePasswordStrength ''aaaaaaaaaaaaaaaa'')"
    by (rule score100_mono_in_length) code_simp+
  moreover have "score100 (calculatePasswordStrength ''aaaaaa'') = 25" by code_simp
  moreover have "score100 (calculatePasswordStrength ''aaaaaaaaaaaaaaaa'') = 45" by code_simp
  ultimately show ?thesis using h by blast
qed

text \<open>
  C9. Whenever the qualitative score is 5 after the clamp, the label is "Very Weak": the
  table of levels has the indices 0 to 4, and index 5 takes the default.
\<close>

theorem top_score_label_very_weak:
  assumes "score (analyzeStrength s) = 5"
  shows "label (analyzeStrength s) = ''Very Weak''"
proof -
  have "max 0 (min 5 (rawQualitative s)) = 5"
    using assms by (simp add: analyzeStrength_def Let_def)
  then show ?thesis
    by (simp add: analyzeStrength_def Let_def levelField_def strengthLevels_def)
qed

theorem top_score_label_very_weak_witness:
  "score (analyzeStrength ''aA1!'') = 5 \<and> label (analyzeStrength ''aA1!'') = ''Very Weak''"
proof -
  have h: "score (analyzeStrength ''aA1!'') = 5" by code_simp
  from top_score_label_very_weak [OF h] h show ?thesis by blast
qed

section \<open>The generator\<close>

lemma generate_alt:
  "generate shuffle options rnd =
     (if wholeCharset options = []
      then Inl (Error ''At least one character type must be selected'')
      else Inr (shuffle (fst (fillRest (wholeCharset options) (length_opt options)
                                (int (length (fst (guaranteed options rnd))))
                                (guaranteed options rnd)))))"
  by (cases "includeUppercase options"; cases "includeLowercase options";
      cases "includeNumbers options"; cases "includeSymbols options";
      cases "excludeSimilar options";
      simp add: generate_def Let_def wholeCharset_def guaranteed_def addClassChar_def
        pickFrom_def notSimilar_def split_def add.assoc)

lemma randomIndex_range:
  assumes "0 \<le> r" and "r < 1" and "0 < n"
  shows "0 \<le> randomIndex r n \<and> randomIndex r n < int n"
proof -
  have "0 \<le> r * real n" using assms by simp
  moreover have "r * real n < real n" using assms by simp
  ultimately show ?thesis
    unfolding randomIndex_def by (simp add: floor_less_iff)
qed

lemma charAt_subset: "set (charAt s i) \<subseteq> set s"
proof (cases "0 \<le> i \<and> i < int (length s)")
  case True
  then have "nat i < length s" by linarith
  moreover have "charAt s i = [s ! nat i]" using True by (simp add: charAt_def)
  ultimately show ?thesis by simp
next
  case False
  then have "charAt s i = []" by (simp add: charAt_def)
  then show ?thesis by simp
qed

lemma charAt_in_range:
  "0 \<le> i \<Longrightarrow> i < int (length s) \<Longrightarrow> \<exists>c. c \<in> set s \<and> charAt s i = [c]"
  by (simp add: charAt_def)

lemma getRandomChar_snd: "snd (getRandomChar pool ex rnd) = stl rnd"
  by (simp add: getRandomChar_def Let_def)

lemma getRandomChar_fst:
  "fst (getRandomChar pool ex rnd)
     = charAt (pickFrom ex pool) (randomIndex (shd rnd) (length (pickFrom ex pool)))"
  by (simp add: getRandomChar_def Let_def pickFrom_def notSimilar_def)

lemma getRandomChar_subset: "set (fst (getRandomChar pool ex rnd)) \<subseteq> set (pickFrom ex pool)"
  unfolding getRandomChar_fst by (rule charAt_subset)

lemma getRandomChar_one:
  assumes "pickFrom ex pool \<noteq> []" and "0 \<le> shd rnd" and "shd rnd < 1"
  shows "\<exists>c. c \<in> set (pickFrom ex pool) \<and> fst (getRandomChar pool ex rnd) = [c]"
proof -
  have "0 < length (pickFrom ex pool)" using assms(1) by simp
  then show ?thesis
    unfolding getRandomChar_fst
    using randomIndex_range [OF assms(2,3)] charAt_in_range by metis
qed

lemma fillRest_subset:
  "set (fst (fillRest charset n i st)) \<subseteq> set (fst st) \<union> set charset"
proof (induction charset n i st rule: fillRest.induct)
  case (1 charset n i password rnd)
  show ?case
  proof (cases "i < n")
    case True
    have "set (fst (fillRest charset n i (password, rnd)))
            \<subseteq> set (password @ charAt charset (randomIndex (shd rnd) (length charset))) \<union> set charset"
      using "1.IH" [OF True] True by (simp add: fillRest.simps)
    then show ?thesis using charAt_subset [of charset] by auto
  next
    case False
    then show ?thesis by (simp add: fillRest.simps)
  qed
qed

lemma fillRest_keeps:
  "set (fst st) \<subseteq> set (fst (fillRest charset n i st))"
proof (induction charset n i st rule: fillRest.induct)
  case (1 charset n i password rnd)
  show ?case
  proof (cases "i < n")
    case True
    then show ?thesis using "1.IH" [OF True] by (simp add: fillRest.simps)
  next
    case False
    then show ?thesis by (simp add: fillRest.simps)
  qed
qed

lemma fillRest_length:
  assumes "charset \<noteq> []" and "sset (snd st) \<subseteq> {0..<1}"
  shows "length (fst (fillRest charset n i st)) = length (fst st) + nat (n - i)"
  using assms
proof (induction charset n i st rule: fillRest.induct)
  case (1 charset n i password rnd)
  show ?case
  proof (cases "i < n")
    case True
    have r: "0 \<le> shd rnd" "shd rnd < 1"
      using "1.prems"(2) shd_sset [of rnd] by auto
    have "0 < length charset" using "1.prems"(1) by simp
    then obtain c where c: "charAt charset (randomIndex (shd rnd) (length charset)) = [c]"
      using randomIndex_range [OF r] charAt_in_range by metis
    have s: "sset (snd (password @ [c], stl rnd)) \<subseteq> {0..<1}"
      using "1.prems"(2) stl_sset [of _ rnd] by auto
    have "length (fst (fillRest charset n i (password, rnd)))
            = length (fst (fillRest charset n (i + 1) (password @ [c], stl rnd)))"
      using True c by (simp add: fillRest.simps)
    also have "\<dots> = length (password @ [c]) + nat (n - (i + 1))"
      using "1.IH" [OF True] "1.prems"(1) s c by simp
    finally show ?thesis using True by simp
  next
    case False
    then show ?thesis by (simp add: fillRest.simps)
  qed
qed

lemma pickFrom_subset: "set (pickFrom ex pool) \<subseteq> set pool"
  by (simp add: pickFrom_def notSimilar_def)

lemma pickFrom_append: "pickFrom ex (a @ b) = pickFrom ex a @ pickFrom ex b"
  by (simp add: pickFrom_def notSimilar_def)

lemma pickFrom_Nil: "pickFrom ex [] = []"
  by (simp add: pickFrom_def notSimilar_def)

lemma pickFrom_similar: "set (pickFrom True pool) \<inter> set SIMILAR = {}"
  by (auto simp add: pickFrom_def notSimilar_def includesChar_def)

lemma pools_nonempty:
  "pickFrom ex UPPERCASE \<noteq> []" "pickFrom ex LOWERCASE \<noteq> []"
  "pickFrom ex NUMBERS \<noteq> []" "pickFrom ex SYMBOLS \<noteq> []"
  by (cases ex; simp add: pickFrom_def notSimilar_def includesChar_def SIMILAR_def
        UPPERCASE_def LOWERCASE_def NUMBERS_def SYMBOLS_def)+

lemma addClassChar_stream:
  "sset (snd st) \<subseteq> A \<Longrightarrow> sset (snd (addClassChar en pool ex st)) \<subseteq> A"
  using stl_sset [of _ "snd st"] by (auto simp add: addClassChar_def getRandomChar_snd)

lemma addClassChar_subset:
  "set (fst (addClassChar en pool ex st)) \<subseteq> set (fst st) \<union> set (pickFrom ex pool)"
  using getRandomChar_subset [of pool ex "snd st"] by (auto simp add: addClassChar_def)

lemma addClassChar_keeps: "set (fst st) \<subseteq> set (fst (addClassChar en pool ex st))"
  by (simp add: addClassChar_def)

lemma addClassChar_one:
  assumes "pickFrom ex pool \<noteq> []" and "sset (snd st) \<subseteq> {0..<1}"
  shows "length (fst (addClassChar en pool ex st)) = length (fst st) + (if en then 1 else 0)"
    and "en \<Longrightarrow> set (fst (addClassChar en pool ex st)) \<inter> set pool \<noteq> {}"
proof -
  have r: "0 \<le> shd (snd st)" "shd (snd st) < 1"
    using assms(2) shd_sset [of "snd st"] by auto
  obtain c where c: "c \<in> set (pickFrom ex pool)" "fst (getRandomChar pool ex (snd st)) = [c]"
    using getRandomChar_one [OF assms(1) r] by blast
  show "length (fst (addClassChar en pool ex st)) = length (fst st) + (if en then 1 else 0)"
    using c(2) by (simp add: addClassChar_def)
  show "set (fst (addClassChar en pool ex st)) \<inter> set pool \<noteq> {}" if en
    using that c pickFrom_subset [of ex pool] by (auto simp add: addClassChar_def)
qed

lemma guaranteed_stream:
  "sset rnd \<subseteq> A \<Longrightarrow> sset (snd (guaranteed options rnd)) \<subseteq> A"
  unfolding guaranteed_def by (intro addClassChar_stream) simp

lemma guaranteed_length:
  assumes "sset rnd \<subseteq> {0..<1}"
  shows "length (fst (guaranteed options rnd)) = enabledClasses options"
proof -
  let ?ex = "excludeSimilar options"
  let ?s1 = "addClassChar (includeUppercase options) UPPERCASE ?ex ([], rnd)"
  let ?s2 = "addClassChar (includeLowercase options) LOWERCASE ?ex ?s1"
  let ?s3 = "addClassChar (includeNumbers options) NUMBERS ?ex ?s2"
  have r0: "sset (snd ([]::string, rnd)) \<subseteq> {0..<1}" using assms by simp
  have r1: "sset (snd ?s1) \<subseteq> {0..<1}" by (rule addClassChar_stream [OF r0])
  have r2: "sset (snd ?s2) \<subseteq> {0..<1}" by (rule addClassChar_stream [OF r1])
  have r3: "sset (snd ?s3) \<subseteq> {0..<1}" by (rule addClassChar_stream [OF r2])
  show ?thesis
    unfolding guaranteed_def enabledClasses_def
    by (simp add: addClassChar_one(1) [OF pools_nonempty(4) r3]
        addClassChar_one(1) [OF pools_nonempty(3) r2]
        addClassChar_one(1) [OF pools_nonempty(2) r1]
        addClassChar_one(1) [OF pools_nonempty(1) r0])
qed

lemma guaranteed_hits:
  assumes "sset rnd \<subseteq> {0..<1}"
  shows "includeUppercase options \<Longrightarrow> set (fst (guaranteed options rnd)) \<inter> set UPPERCASE \<noteq> {}"
    and "includeLowercase options \<Longrightarrow> set (fst (guaranteed options rnd)) \<inter> set LOWERCASE \<noteq> {}"
    and "includeNumbers options \<Longrightarrow> set (fst (guaranteed options rnd)) \<inter> set NUMBERS \<noteq> {}"
    and "includeSymbols options \<Longrightarrow> set (fst (guaranteed options rnd)) \<inter> set SYMBOLS \<noteq> {}"
proof -
  let ?ex = "excludeSimilar options"
  let ?s1 = "addClassChar (includeUppercase options) UPPERCASE ?ex ([], rnd)"
  let ?s2 = "addClassChar (includeLowercase options) LOWERCASE ?ex ?s1"
  let ?s3 = "addClassChar (includeNumbers options) NUMBERS ?ex ?s2"
  let ?s4 = "addClassChar (includeSymbols options) SYMBOLS ?ex ?s3"
  have g: "guaranteed options rnd = ?s4" by (simp add: guaranteed_def)
  have r0: "sset (snd ([]::string, rnd)) \<subseteq> {0..<1}" using assms by simp
  have r1: "sset (snd ?s1) \<subseteq> {0..<1}" by (rule addClassChar_stream [OF r0])
  have r2: "sset (snd ?s2) \<subseteq> {0..<1}" by (rule addClassChar_stream [OF r1])
  have r3: "sset (snd ?s3) \<subseteq> {0..<1}" by (rule addClassChar_stream [OF r2])
  have k2: "set (fst ?s1) \<subseteq> set (fst ?s2)" by (rule addClassChar_keeps)
  have k3: "set (fst ?s2) \<subseteq> set (fst ?s3)" by (rule addClassChar_keeps)
  have k4: "set (fst ?s3) \<subseteq> set (fst ?s4)" by (rule addClassChar_keeps)
  show "set (fst (guaranteed options rnd)) \<inter> set UPPERCASE \<noteq> {}" if "includeUppercase options"
    using addClassChar_one(2) [OF pools_nonempty(1) r0 that] k2 k3 k4 unfolding g by blast
  show "set (fst (guaranteed options rnd)) \<inter> set LOWERCASE \<noteq> {}" if "includeLowercase options"
    using addClassChar_one(2) [OF pools_nonempty(2) r1 that] k3 k4 unfolding g by blast
  show "set (fst (guaranteed options rnd)) \<inter> set NUMBERS \<noteq> {}" if "includeNumbers options"
    using addClassChar_one(2) [OF pools_nonempty(3) r2 that] k4 unfolding g by blast
  show "set (fst (guaranteed options rnd)) \<inter> set SYMBOLS \<noteq> {}" if "includeSymbols options"
    using addClassChar_one(2) [OF pools_nonempty(4) r3 that] unfolding g by blast
qed

lemma guaranteed_subset:
  "set (fst (guaranteed options rnd))
     \<subseteq> set (pickFrom (excludeSimilar options) (UPPERCASE @ LOWERCASE @ NUMBERS @ SYMBOLS))"
proof -
  let ?ex = "excludeSimilar options"
  let ?s1 = "addClassChar (includeUppercase options) UPPERCASE ?ex ([], rnd)"
  let ?s2 = "addClassChar (includeLowercase options) LOWERCASE ?ex ?s1"
  let ?s3 = "addClassChar (includeNumbers options) NUMBERS ?ex ?s2"
  let ?s4 = "addClassChar (includeSymbols options) SYMBOLS ?ex ?s3"
  have g: "guaranteed options rnd = ?s4" by (simp add: guaranteed_def)
  have "set (fst ?s1) \<subseteq> set (pickFrom ?ex UPPERCASE)"
    using addClassChar_subset [of "includeUppercase options" UPPERCASE ?ex "([], rnd)"] by simp
  moreover have "set (fst ?s2) \<subseteq> set (fst ?s1) \<union> set (pickFrom ?ex LOWERCASE)"
    by (rule addClassChar_subset)
  moreover have "set (fst ?s3) \<subseteq> set (fst ?s2) \<union> set (pickFrom ?ex NUMBERS)"
    by (rule addClassChar_subset)
  moreover have "set (fst ?s4) \<subseteq> set (fst ?s3) \<union> set (pickFrom ?ex SYMBOLS)"
    by (rule addClassChar_subset)
  ultimately show ?thesis unfolding g pickFrom_append set_append by blast
qed

lemma wholeCharset_subset:
  "set (wholeCharset options)
     \<subseteq> set (pickFrom (excludeSimilar options) (UPPERCASE @ LOWERCASE @ NUMBERS @ SYMBOLS))"
  unfolding wholeCharset_def pickFrom_append set_append
  by (auto simp add: pickFrom_Nil)

lemma wholeCharset_nonempty:
  assumes "includeUppercase options \<or> includeLowercase options
           \<or> includeNumbers options \<or> includeSymbols options"
  shows "wholeCharset options \<noteq> []"
  using assms pools_nonempty [of "excludeSimilar options"]
  unfolding wholeCharset_def pickFrom_append
  by auto

text \<open>
  C1, as stated: every request with length at least 1 and a class enabled gives a string
  of the requested length. It fails when fewer characters are requested than classes are
  enabled: the four guarded characters come first and the loop adds none. With length 1,
  upper and lower case enabled, every random value 0 and the comparator's order taken as
  the reverse, the result has two characters.
\<close>

theorem generate_length_counterexample:
  "generate rev
     \<lparr> length_opt = 1, includeUppercase = True, includeLowercase = True,
       includeNumbers = False, includeSymbols = False, excludeSimilar = False \<rparr>
     (sconst 0) = Inr ''aA''
   \<and> int (length ''aA'') \<noteq> 1"
  by (simp add: generate_def Let_def getRandomChar_def charAt_def randomIndex_def
      fillRest.simps UPPERCASE_def LOWERCASE_def)

text \<open>
  C1, amended: for every request with length at least 1 and a class enabled, with random
  values in \<open>[0, 1)\<close> and a sort that rearranges, \<open>generate\<close> returns a string that
  has a character of every enabled class, and whose length is the larger of the requested
  length and the number of enabled classes: the requested length whenever that is not
  below the number of enabled classes.
\<close>

theorem generate_length_and_classes:
  assumes "1 \<le> length_opt options"
    and "includeUppercase options \<or> includeLowercase options
         \<or> includeNumbers options \<or> includeSymbols options"
    and "sset rnd \<subseteq> {0..<1}"
    and "\<And>s. mset (shuffle s) = mset s"
  shows "\<exists>pw. generate shuffle options rnd = Inr pw
           \<and> int (length pw) = max (length_opt options) (int (enabledClasses options))
           \<and> (includeUppercase options \<longrightarrow> set pw \<inter> set UPPERCASE \<noteq> {})
           \<and> (includeLowercase options \<longrightarrow> set pw \<inter> set LOWERCASE \<noteq> {})
           \<and> (includeNumbers options \<longrightarrow> set pw \<inter> set NUMBERS \<noteq> {})
           \<and> (includeSymbols options \<longrightarrow> set pw \<inter> set SYMBOLS \<noteq> {})"
proof -
  let ?g = "guaranteed options rnd"
  let ?pw = "fst (fillRest (wholeCharset options) (length_opt options) (int (length (fst ?g))) ?g)"
  have ne: "wholeCharset options \<noteq> []" by (rule wholeCharset_nonempty [OF assms(2)])
  have res: "generate shuffle options rnd = Inr (shuffle ?pw)"
    using ne by (simp add: generate_alt)
  have len: "length (shuffle ?pw) = length ?pw" and st: "set (shuffle ?pw) = set ?pw"
    using assms(4) [of ?pw] by (metis size_mset, metis set_mset_mset)
  have "length ?pw = enabledClasses options + nat (length_opt options - int (enabledClasses options))"
    using fillRest_length [OF ne guaranteed_stream [OF assms(3)]] guaranteed_length [OF assms(3)]
    by simp
  then have l: "int (length (shuffle ?pw)) = max (length_opt options) (int (enabledClasses options))"
    using len by linarith
  have k: "set (fst ?g) \<subseteq> set (shuffle ?pw)"
    using fillRest_keeps [of ?g] st by simp
  show ?thesis
    using res l k guaranteed_hits [OF assms(3), of options] by blast
qed

theorem generate_length_and_classes_witness:
  "\<exists>pw. generate rev
          \<lparr> length_opt = 10, includeUppercase = True, includeLowercase = False,
            includeNumbers = True, includeSymbols = False, excludeSimilar = False \<rparr>
          (sconst (1/2)) = Inr pw
        \<and> length pw = 10 \<and> set pw \<inter> set UPPERCASE \<noteq> {} \<and> set pw \<inter> set NUMBERS \<noteq> {}"
proof -
  let ?options = "\<lparr> length_opt = 10, includeUppercase = True, includeLowercase = False,
            includeNumbers = True, includeSymbols = False, excludeSimilar = False \<rparr>"
  have h1: "1 \<le> length_opt ?options" by simp
  have h2: "includeUppercase ?options \<or> includeLowercase ?options
         \<or> includeNumbers ?options \<or> includeSymbols ?options" by simp
  have h3: "sset (sconst (1/2 :: real)) \<subseteq> {0..<1}" by simp
  have h4: "\<And>s :: string. mset (rev s) = mset s" by simp
  from generate_length_and_classes [OF h1 h2 h3 h4]
  show ?thesis by (simp add: enabledClasses_def)
qed

text \<open>
  C8. For every request with length at least 1, a class enabled and \<open>excludeSimilar\<close>
  set, \<open>generate\<close> returns a string with none of the characters \<open>i l 1 L o 0 O\<close>.
\<close>

theorem generate_excludes_similar:
  assumes "1 \<le> length_opt options"
    and "includeUppercase options \<or> includeLowercase options
         \<or> includeNumbers options \<or> includeSymbols options"
    and "excludeSimilar options"
    and "\<And>s. mset (shuffle s) = mset s"
  shows "\<exists>pw. generate shuffle options rnd = Inr pw \<and> set pw \<inter> set SIMILAR = {}"
proof -
  let ?g = "guaranteed options rnd"
  let ?pw = "fst (fillRest (wholeCharset options) (length_opt options) (int (length (fst ?g))) ?g)"
  have ne: "wholeCharset options \<noteq> []" by (rule wholeCharset_nonempty [OF assms(2)])
  have res: "generate shuffle options rnd = Inr (shuffle ?pw)"
    using ne by (simp add: generate_alt)
  have st: "set (shuffle ?pw) = set ?pw"
    using assms(4) [of ?pw] by (metis set_mset_mset)
  have "set ?pw \<subseteq> set (fst ?g) \<union> set (wholeCharset options)"
    by (rule fillRest_subset)
  then have "set ?pw \<subseteq> set (pickFrom True (UPPERCASE @ LOWERCASE @ NUMBERS @ SYMBOLS))"
    using guaranteed_subset [of options rnd] wholeCharset_subset [of options] assms(3) by auto
  then have "set (shuffle ?pw) \<inter> set SIMILAR = {}"
    using pickFrom_similar [of "UPPERCASE @ LOWERCASE @ NUMBERS @ SYMBOLS"] st by blast
  then show ?thesis using res by blast
qed

theorem generate_excludes_similar_witness:
  "\<exists>pw. generate rev
          \<lparr> length_opt = 12, includeUppercase = True, includeLowercase = True,
            includeNumbers = True, includeSymbols = False, excludeSimilar = True \<rparr>
          (sconst 0) = Inr pw
        \<and> set pw \<inter> set SIMILAR = {}"
proof -
  let ?options = "\<lparr> length_opt = 12, includeUppercase = True, includeLowercase = True,
            includeNumbers = True, includeSymbols = False, excludeSimilar = True \<rparr>"
  have h1: "1 \<le> length_opt ?options" by simp
  have h2: "includeUppercase ?options \<or> includeLowercase ?options
         \<or> includeNumbers ?options \<or> includeSymbols ?options" by simp
  have h3: "excludeSimilar ?options" by simp
  have h4: "\<And>s :: string. mset (rev s) = mset s" by simp
  from generate_excludes_similar [OF h1 h2 h3 h4]
  show ?thesis .
qed

section \<open>The health analyzer\<close>

lemma analyzeStep_fields:
  "total_h (fst (analyzeStep d s st p)) = total_h (fst st)"
  "healthScore (fst (analyzeStep d s st p)) = healthScore (fst st)"
  "weak (fst (analyzeStep d s st p)) = weak (fst st) + (if isWeak p then 1 else 0)"
  "strong (fst (analyzeStep d s st p)) = strong (fst st) + (if isStrong p then 1 else 0)"
  "old (fst (analyzeStep d s st p)) = old (fst st) + (if isStale d s p then 1 else 0)"
  "duplicate (fst (analyzeStep d s st p))
     = duplicate (fst st) + (if passwordValue p \<in> set (snd st) then 1 else 0)"
  "snd (analyzeStep d s st p)
     = (if passwordValue p \<in> set (snd st) then snd st else snd st @ [passwordValue p])"
  by (simp_all add: analyzeStep_def Let_def isWeak_def isStrong_def isStale_def split: option.split)

lemma foldl_analyze_simple:
  "total_h (fst (foldl (analyzeStep d s) st ps)) = total_h (fst st)"
  "healthScore (fst (foldl (analyzeStep d s) st ps)) = healthScore (fst st)"
  "weak (fst (foldl (analyzeStep d s) st ps)) = weak (fst st) + length (filter isWeak ps)"
  "strong (fst (foldl (analyzeStep d s) st ps)) = strong (fst st) + length (filter isStrong ps)"
  "old (fst (foldl (analyzeStep d s) st ps)) = old (fst st) + length (filter (isStale d s) ps)"
  by (induction ps arbitrary: st; simp add: analyzeStep_fields)+

lemma foldl_analyze_values:
  "distinct (snd st) \<Longrightarrow>
   distinct (snd (foldl (analyzeStep d s) st ps))
   \<and> set (snd (foldl (analyzeStep d s) st ps)) = set (snd st) \<union> passwordValue ` set ps
   \<and> duplicate (fst (foldl (analyzeStep d s) st ps)) + length (snd (foldl (analyzeStep d s) st ps))
       = duplicate (fst st) + length (snd st) + length ps"
proof (induction ps arbitrary: st)
  case Nil
  then show ?case by simp
next
  case (Cons p ps)
  have d: "distinct (snd (analyzeStep d s st p))"
    using Cons.prems by (simp add: analyzeStep_fields)
  show ?case
    using Cons.IH [OF d] by (auto simp add: analyzeStep_fields)
qed

lemma foldl_analyze_duplicate:
  "duplicate (fst (foldl (analyzeStep d s)
      (\<lparr> total_h = n, weak = 0, duplicate = 0, old = 0, strong = 0, healthScore = 0 \<rparr>, []) ps))
   = repeatsEarlier ps"
proof -
  let ?st = "(\<lparr> total_h = n, weak = 0, duplicate = 0, old = 0, strong = 0, healthScore = 0 \<rparr>, [])"
  let ?r = "foldl (analyzeStep d s) ?st ps"
  have inv: "distinct (snd ?r)" "set (snd ?r) = passwordValue ` set ps"
    "duplicate (fst ?r) + length (snd ?r) = length ps"
    using foldl_analyze_values [of ?st d s ps] by simp_all
  have "length (snd ?r) = card (passwordValue ` set ps)"
    using inv(1,2) distinct_card by metis
  also have "\<dots> = length (remdups (map passwordValue ps))"
    by (simp add: length_remdups_card_conv)
  finally show ?thesis using inv(3) by (simp add: repeatsEarlier_def)
qed

lemma clamp_max_min: "max 0 (min 100 x) = clamp 0 100 (x::real)"
  by (simp add: clamp_def max_def min_def)

lemma analyze_fields:
  "total_h (analyzePasswordHealth d s ps) = length ps"
  "weak (analyzePasswordHealth d s ps) = length (filter isWeak ps)"
  "duplicate (analyzePasswordHealth d s ps) = repeatsEarlier ps"
  "old (analyzePasswordHealth d s ps) = length (filter (isStale d s) ps)"
  "strong (analyzePasswordHealth d s ps) = length (filter isStrong ps)"
  by (simp_all add: analyzePasswordHealth_def Let_def foldl_analyze_simple foldl_analyze_duplicate
        repeatsEarlier_def)

lemma analyze_healthScore:
  "healthScore (analyzePasswordHealth d s ps)
     = compositeScoreSpec (length ps) (length (filter isWeak ps)) (repeatsEarlier ps)
         (length (filter (isStale d s) ps)) (length (filter isStrong ps))"
  by (simp add: analyzePasswordHealth_def Let_def foldl_analyze_simple foldl_analyze_duplicate
        compositeScoreSpec_def clamp_max_min mult.commute repeatsEarlier_def)

text \<open>
  C2, as stated: for the three records with the secrets \<open>abc123\<close>, \<open>abc123\<close> and
  \<open>Xy9!kLp2Qz\<close> the analyzer reports 2 duplicates. It reports 1: only a record whose
  secret was seen before is counted, the first of a group is not.
\<close>

theorem duplicateCount_counterexample:
  "duplicate (analyzePasswordHealth sampleDateValue 1720000000000
     [sampleRecord ''1'' ''abc123'', sampleRecord ''2'' ''abc123'',
      sampleRecord ''3'' ''Xy9!kLp2Qz'']) = 1
   \<and> duplicate (analyzePasswordHealth sampleDateValue 1720000000000
     [sampleRecord ''1'' ''abc123'', sampleRecord ''2'' ''abc123'',
      sampleRecord ''3'' ''Xy9!kLp2Qz'']) \<noteq> 2"
  by code_simp

text \<open>
  C2, amended: for three records with the secrets \<open>abc123\<close>, \<open>abc123\<close> and
  \<open>Xy9!kLp2Qz\<close>, whatever their other fields, the analyzer reports 1 duplicate, and
  \<open>getDuplicatePasswords\<close> returns the two \<open>abc123\<close> records in their original order.
\<close>

theorem duplicates_example:
  assumes "passwordValue r1 = ''abc123''"
    and "passwordValue r2 = ''abc123''"
    and "passwordValue r3 = ''Xy9!kLp2Qz''"
  shows "duplicate (analyzePasswordHealth dateValue sixMonthsAgo [r1, r2, r3]) = 1
         \<and> getDuplicatePasswords [r1, r2, r3] = Inr [r1, r2]"
proof -
  have "duplicate (analyzePasswordHealth dateValue sixMonthsAgo [r1, r2, r3]) = 1"
    using assms by (simp add: analyze_fields repeatsEarlier_def)
  moreover have "\<not> isArrayIndex ''abc123''" "\<not> isArrayIndex ''Xy9!kLp2Qz''"
    by (simp_all add: isArrayIndex_def isDigit_def code_def)
  then have "getDuplicatePasswords [r1, r2, r3] = Inr [r1, r2]"
    using assms
    by (simp add: getDuplicatePasswords_def Let_def objectPrototypeKeys_def objectValues_def)
  ultimately show ?thesis by blast
qed

theorem duplicates_example_witness:
  "duplicate (analyzePasswordHealth sampleDateValue 1720000000000
     [sampleRecord ''1'' ''abc123'', sampleRecord ''2'' ''abc123'',
      sampleRecord ''3'' ''Xy9!kLp2Qz'']) = 1
   \<and> getDuplicatePasswords
     [sampleRecord ''1'' ''abc123'', sampleRecord ''2'' ''abc123'',
      sampleRecord ''3'' ''Xy9!kLp2Qz'']
     = Inr [sampleRecord ''1'' ''abc123'', sampleRecord ''2'' ''abc123'']"
proof -
  have h1: "passwordValue (sampleRecord ''1'' ''abc123'') = ''abc123''"
    and h2: "passwordValue (sampleRecord ''2'' ''abc123'') = ''abc123''"
    and h3: "passwordValue (sampleRecord ''3'' ''Xy9!kLp2Qz'') = ''Xy9!kLp2Qz''"
    by (simp_all add: passwordValue_def sampleRecord_def)
  from duplicates_example [OF h1 h2 h3] show ?thesis .
qed

text \<open>
  C3. For every list of records the composite score is the specification's formula: 0 for
  no record, else the clamp to \<open>[0, 100]\<close> of
  \<open>100 - 40 weakRatio - 30 duplicateRatio - 20 staleRatio + 10 strongRatio\<close>, each ratio
  the analyzer's count over the number of records, and the counts are those of the
  records that are weak, repeat an earlier secret, are stale, are strong. Numbers are
  real numbers here; the source computes in floating point.
\<close>

theorem healthScore_formula:
  "healthScore (analyzePasswordHealth dateValue sixMonthsAgo ps)
     = compositeScoreSpec (total_h (analyzePasswordHealth dateValue sixMonthsAgo ps))
         (weak (analyzePasswordHealth dateValue sixMonthsAgo ps))
         (duplicate (analyzePasswordHealth dateValue sixMonthsAgo ps))
         (old (analyzePasswordHealth dateValue sixMonthsAgo ps))
         (strong (analyzePasswordHealth dateValue sixMonthsAgo ps))
   \<and> total_h (analyzePasswordHealth dateValue sixMonthsAgo ps) = length ps
   \<and> weak (analyzePasswordHealth dateValue sixMonthsAgo ps) = length (filter isWeak ps)
   \<and> duplicate (analyzePasswordHealth dateValue sixMonthsAgo ps) = repeatsEarlier ps
   \<and> old (analyzePasswordHealth dateValue sixMonthsAgo ps)
       = length (filter (isStale dateValue sixMonthsAgo) ps)
   \<and> strong (analyzePasswordHealth dateValue sixMonthsAgo ps) = length (filter isStrong ps)"
  by (simp only: analyze_fields analyze_healthScore)

theorem healthScore_formula_witness:
  "healthScore (analyzePasswordHealth sampleDateValue 1720000000000
     [sampleRecord ''1'' ''abc123'', sampleRecord ''2'' ''abc123'',
      sampleRecord ''3'' ''Xy9!kLp2Qz''])
     = compositeScoreSpec 3 2 1 3 1
   \<and> compositeScoreSpec 3 2 1 3 1 = 140 / 3
   \<and> healthScore (analyzePasswordHealth sampleDateValue 1720000000000 []) = 0"
proof -
  let ?ps = "[sampleRecord ''1'' ''abc123'', sampleRecord ''2'' ''abc123'',
      sampleRecord ''3'' ''Xy9!kLp2Qz'']"
  let ?st = "analyzePasswordHealth sampleDateValue 1720000000000 ?ps"
  have c: "total_h ?st = 3" "weak ?st = 2" "duplicate ?st = 1" "old ?st = 3" "strong ?st = 1"
    by code_simp+
  have "healthScore ?st = compositeScoreSpec 3 2 1 3 1"
    using healthScore_formula [of sampleDateValue 1720000000000 ?ps] unfolding c by blast
  moreover have "compositeScoreSpec 3 2 1 3 1 = 140 / 3"
    by (simp add: compositeScoreSpec_def clamp_def)
  moreover have "healthScore (analyzePasswordHealth sampleDateValue 1720000000000 []) = 0"
    using healthScore_formula [of sampleDateValue 1720000000000 "[]"]
    by (simp add: compositeScoreSpec_def)
  ultimately show ?thesis by blast
qed

section \<open>The import\<close>

lemma withTitle_password: "password (withTitle i pw) = password pw"
  by (simp add: withTitle_def)

lemma rowsLoop_passwords:
  "map password (rowsLoop headers i rows acc)
     = map password acc
       @ filter (\<lambda>s. s \<noteq> []) (map (\<lambda>line. password (resolveRow headers line)) rows)"
  by (induction rows arbitrary: i acc) (simp_all add: Let_def withTitle_password)

lemma count_dropped:
  "length (filter (\<lambda>s. s \<noteq> []) (map f rows))
     = length rows - length (filter (\<lambda>line. f line = []) rows)"
proof -
  have "length (filter (\<lambda>line. f line = []) rows) + length (filter (\<lambda>line. f line \<noteq> []) rows)
          = length rows"
    using sum_length_filter_compl [of "\<lambda>line. f line = []" rows] by simp
  then show ?thesis by (simp add: filter_map comp_def)
qed

lemma importLoop_counts:
  "total_r (importLoop blink user i cands r) = total_r r
   \<and> successful (importLoop blink user i cands r)
       = successful r + length (filter (\<lambda>x. x = None) (createOutcomes blink user i cands))
   \<and> failed (importLoop blink user i cands r)
       = failed r + length (filter (\<lambda>x. x \<noteq> None) (createOutcomes blink user i cands))
   \<and> length (errors (importLoop blink user i cands r))
       = length (errors r) + length (filter (\<lambda>x. x \<noteq> None) (createOutcomes blink user i cands))"
proof (induction cands arbitrary: i r)
  case Nil
  then show ?case by (simp add: createOutcomes_def)
next
  case (Cons pw rest)
  have z: "createOutcomes blink user i (pw # rest)
             = db_create blink i (newRecord blink user i pw) # createOutcomes blink user (i + 1) rest"
    by (simp add: createOutcomes_def)
  show ?case
    unfolding z using Cons.IH [of "i + 1"]
    by (cases "db_create blink i (newRecord blink user i pw)") simp_all
qed

lemma createOutcomes_length: "length (createOutcomes blink user i cands) = length cands"
  by (simp add: createOutcomes_def)

text \<open>
  C6. For every text, \<open>parseCSV\<close> raises its one error exactly when there are fewer
  than two non-blank lines, never for a row; with a header line and a data line at least
  it returns as many candidates as there are data lines less those whose resolved
  password is empty: exactly the rows with a password, in order.
\<close>

theorem parseCSV_drops_empty_password:
  "(length (csvLines text) < 2 \<longrightarrow>
      parseCSV text = Inl (Error ''CSV must have at least a header row and one data row''))
   \<and> (2 \<le> length (csvLines text) \<longrightarrow>
      (\<exists>ps. parseCSV text = Inr ps
         \<and> length ps = length (tl (csvLines text))
              - length (filter (\<lambda>line. password (resolveRow (csvHeaders (csvLines text)) line) = [])
                          (tl (csvLines text)))
         \<and> map password ps
             = filter (\<lambda>s. s \<noteq> [])
                 (map (\<lambda>line. password (resolveRow (csvHeaders (csvLines text)) line))
                    (tl (csvLines text)))))"
proof (intro conjI impI)
  assume "length (csvLines text) < 2"
  then show "parseCSV text = Inl (Error ''CSV must have at least a header row and one data row'')"
    by (simp add: parseCSV_def Let_def)
next
  assume two: "2 \<le> length (csvLines text)"
  let ?hs = "csvHeaders (csvLines text)"
  let ?rows = "tl (csvLines text)"
  let ?ps = "rowsLoop ?hs 1 ?rows []"
  have res: "parseCSV text = Inr ?ps"
    using two by (simp add: parseCSV_def Let_def)
  have m: "map password ?ps = filter (\<lambda>s. s \<noteq> []) (map (\<lambda>line. password (resolveRow ?hs line)) ?rows)"
    by (simp add: rowsLoop_passwords)
  have "length ?ps = length (map password ?ps)" by simp
  also have "\<dots> = length ?rows - length (filter (\<lambda>line. password (resolveRow ?hs line) = []) ?rows)"
    unfolding m by (rule count_dropped)
  finally show "\<exists>ps. parseCSV text = Inr ps
         \<and> length ps = length ?rows
              - length (filter (\<lambda>line. password (resolveRow ?hs line) = []) ?rows)
         \<and> map password ps
             = filter (\<lambda>s. s \<noteq> []) (map (\<lambda>line. password (resolveRow ?hs line)) ?rows)"
    using res m by blast
qed

theorem parseCSV_drops_empty_password_witness:
  "2 \<le> length (csvLines sampleCSV)
   \<and> length (tl (csvLines sampleCSV)) = 2
   \<and> length (filter (\<lambda>line. password (resolveRow (csvHeaders (csvLines sampleCSV)) line) = [])
               (tl (csvLines sampleCSV))) = 1
   \<and> (\<exists>ps. parseCSV sampleCSV = Inr ps \<and> length ps = 1
            \<and> map password ps = [''anotherpassword''])"
proof -
  have h: "2 \<le> length (csvLines sampleCSV)" by code_simp
  have n: "length (tl (csvLines sampleCSV)) = 2" by code_simp
  have e: "length (filter (\<lambda>line. password (resolveRow (csvHeaders (csvLines sampleCSV)) line) = [])
               (tl (csvLines sampleCSV))) = 1" by code_simp
  have p: "filter (\<lambda>s. s \<noteq> [])
             (map (\<lambda>line. password (resolveRow (csvHeaders (csvLines sampleCSV)) line))
                (tl (csvLines sampleCSV))) = [''anotherpassword'']" by code_simp
  from parseCSV_drops_empty_password [of sampleCSV] h n e p show ?thesis by auto
qed

text \<open>
  C7. When the user is signed in and the store rejects exactly one of the three calls of
  \<open>create\<close>, the commit runs to its end and reports total 3, successful 2, failed 1 and
  one error text.
\<close>

theorem commit_one_failure_of_three:
  assumes "auth_me blink = Inr user"
    and "length (filter (\<lambda>x. x \<noteq> None) (createOutcomes blink user 0 [c0, c1, c2])) = 1"
  shows "\<exists>r. handleImport blink [c0, c1, c2] = Some r
           \<and> total_r r = 3 \<and> successful r = 2 \<and> failed r = 1 \<and> length (errors r) = 1"
proof -
  let ?os = "createOutcomes blink user 0 [c0, c1, c2]"
  let ?r = "importLoop blink user 0 [c0, c1, c2]
      \<lparr> total_r = length [c0, c1, c2], successful = 0, failed = 0, errors = [] \<rparr>"
  have res: "handleImport blink [c0, c1, c2] = Some ?r"
    using assms(1) by (simp add: handleImport_def)
  have "length (filter (\<lambda>x. x = None) ?os) + length (filter (\<lambda>x. x \<noteq> None) ?os) = length ?os"
    using sum_length_filter_compl [of "\<lambda>x. x = None" ?os] by simp
  then have s: "length (filter (\<lambda>x. x = None) ?os) = 2"
    using assms(2) by (simp add: createOutcomes_length)
  have "total_r ?r = 3 \<and> successful ?r = 2 \<and> failed ?r = 1 \<and> length (errors ?r) = 1"
    using importLoop_counts [of blink user 0 "[c0, c1, c2]"] s assms(2) by simp
  then show ?thesis using res by blast
qed

theorem commit_one_failure_of_three_witness:
  "\<exists>r. handleImport sampleBlink
          [sampleCandidate ''Gmail'' ''pw1'', sampleCandidate ''Facebook'' ''pw2'',
           sampleCandidate ''Bank'' ''pw3''] = Some r
        \<and> total_r r = 3 \<and> successful r = 2 \<and> failed r = 1 \<and> length (errors r) = 1"
proof -
  have h1: "auth_me sampleBlink = Inr ''user_1''" by (simp add: sampleBlink_def)
  have h2: "length (filter (\<lambda>x. x \<noteq> None) (createOutcomes sampleBlink ''user_1'' 0
          [sampleCandidate ''Gmail'' ''pw1'', sampleCandidate ''Facebook'' ''pw2'',
           sampleCandidate ''Bank'' ''pw3''])) = 1"
    by (simp add: createOutcomes_def sampleBlink_def)
  from commit_one_failure_of_three [OF h1 h2] show ?thesis .
qed

text \<open>
  C10. For any candidates, at least one, any signed-in user and any behaviour of the
  store, \<open>handleImport\<close> reports an outcome, and the outcome has
  successful + failed = total, as many error texts as failures, and the number of
  candidates as total.
\<close>

theorem import_outcome_invariant:
  assumes "previewData \<noteq> []" and "auth_me blink = Inr user"
  shows "\<exists>r. handleImport blink previewData = Some r
           \<and> successful r + failed r = total_r r \<and> length (errors r) = failed r
           \<and> total_r r = length previewData"
proof -
  let ?r = "importLoop blink user 0 previewData
      \<lparr> total_r = length previewData, successful = 0, failed = 0, errors = [] \<rparr>"
  let ?os = "createOutcomes blink user 0 previewData"
  have res: "handleImport blink previewData = Some ?r"
    using assms by (simp add: handleImport_def)
  have "length (filter (\<lambda>x. x = None) ?os) + length (filter (\<lambda>x. x \<noteq> None) ?os) = length ?os"
    using sum_length_filter_compl [of "\<lambda>x. x = None" ?os] by simp
  then have "successful ?r + failed ?r = total_r ?r \<and> length (errors ?r) = failed ?r
           \<and> total_r ?r = length previewData"
    using importLoop_counts [of blink user 0 previewData]
    by (simp add: createOutcomes_length)
  then show ?thesis using res by blast
qed

theorem import_outcome_invariant_witness:
  "handleImport sampleBlink
     [sampleCandidate ''Gmail'' ''pw1'', sampleCandidate ''Facebook'' ''pw2'']
     = Some \<lparr> total_r = 2, successful = 1, failed = 1,
              errors = [''Failed to import '' @ [char_of (34::nat)] @ ''Facebook''
                        @ [char_of (34::nat)] @ '': Error: store unavailable''] \<rparr>
   \<and> (\<exists>r. handleImport sampleBlink
          [sampleCandidate ''Gmail'' ''pw1'', sampleCandidate ''Facebook'' ''pw2''] = Some r
        \<and> successful r + failed r = total_r r \<and> length (errors r) = failed r
        \<and> total_r r = 2)"
proof -
  have h1: "[sampleCandidate ''Gmail'' ''pw1'', sampleCandidate ''Facebook'' ''pw2''] \<noteq> []"
    by simp
  have h2: "auth_me sampleBlink = Inr ''user_1''" by (simp add: sampleBlink_def)
  have v: "handleImport sampleBlink
     [sampleCandidate ''Gmail'' ''pw1'', sampleCandidate ''Facebook'' ''pw2'']
     = Some \<lparr> total_r = 2, successful = 1, failed = 1,
              errors = [''Failed to import '' @ [char_of (34::nat)] @ ''Facebook''
                        @ [char_of (34::nat)] @ '': Error: store unavailable''] \<rparr>"
    by (simp add: handleImport_def sampleBlink_def sampleCandidate_def newRecord_def)
  from import_outcome_invariant [OF h1 h2] v show ?thesis by simp
qed

end
